theory Spec2Isabelle
  imports Complex_Main "HOL-Library.AList" "HOL-Library.Multiset"
begin

section \<open>Surf forecast and board recommendation: the data\<close>

text \<open>
  The program (\<^verbatim>\<open>surfline_forecast.py\<close>) passes JSON dictionaries between its stages.
  The catalog entries it reads field by field are records here; a key read with
  \<^verbatim>\<open>.get(key, default)\<close> is an optional field, a key read with \<^verbatim>\<open>[key]\<close> a plain one.
  The key \<^verbatim>\<open>"type"\<close> of a board is the field \<open>btype\<close>, its \<^verbatim>\<open>"name"\<close> the field \<open>board_name\<close>.
  Numbers are exact rationals: the rounding of binary floating point is outside the model.
  Python's number formatting inside f-strings is the parameter \<open>fmt\<close> of the functions
  that build reasoning strings.
\<close>

record board =
  board_name :: string
  btype :: string
  volume :: rat
  ideal_wave_range :: "rat \<times> rat"
  ideal_period_range :: "rat \<times> rat"
  construction :: "string option"

text \<open>
  A construction is the dictionary of its attributes (an association list, so that the
  emptiness test \<^verbatim>\<open>if construction:\<close> is a test on the list); the construction table
  maps a construction key to it.
\<close>

type_synonym construction_dict = "(string \<times> string) list"

record characteristics =
  wave_quality :: "string option"
  skill_level :: "string option"

record spot =
  name :: string
  surfline_id :: string
  spot_type :: "string option"
  spot_characteristics :: "characteristics option"

record recommendation =
  rec_board :: board
  construction_info :: construction_dict
  construction_type :: string
  score :: rat
  reasoning :: "string list"

record BoardQuiver =
  boards :: "board list"
  construction_properties :: "string \<rightharpoonup> construction_dict"

text \<open>\<^verbatim>\<open>d.get(key, default)\<close> on an optional field.\<close>

definition get_default :: "'a option \<Rightarrow> 'a \<Rightarrow> 'a" where
  "get_default v d = (case v of None \<Rightarrow> d | Some x \<Rightarrow> x)"

section \<open>The scoring engine\<close>

text \<open>
  The body of the loop of \<^verbatim>\<open>recommend_board\<close> updates two local variables, \<^verbatim>\<open>score\<close>
  and \<^verbatim>\<open>reasoning\<close> (here \<open>sc\<close> and \<open>rs\<close>). Each commented block of the body is a
  function on that pair.
\<close>

type_synonym tally = "rat \<times> string list"

definition wave_height_scoring :: "(rat \<Rightarrow> string) \<Rightarrow> board \<Rightarrow> rat \<Rightarrow> tally \<Rightarrow> tally" where
  "wave_height_scoring fmt b wave_height t =
     (case t of (sc, rs) \<Rightarrow>
      case ideal_wave_range b of (min_wave, max_wave) \<Rightarrow>
        if min_wave \<le> wave_height \<and> wave_height \<le> max_wave then
          (sc + 3,
           rs @ [''Perfect wave size ('' @ fmt wave_height @ ''ft in '' @ fmt min_wave
                          @ ''-'' @ fmt max_wave @ ''ft range)''])
        else if wave_height < min_wave then
          (sc + max 0 (2 - (min_wave - wave_height)),
           rs @ [''Below ideal size ('' @ fmt wave_height @ ''ft vs '' @ fmt min_wave
                          @ ''ft+ ideal)''])
        else
          (sc + max 0 (2 - (wave_height - max_wave)),
           rs @ [''Above ideal size ('' @ fmt wave_height @ ''ft vs '' @ fmt max_wave
                          @ ''ft max)'']))"

definition period_scoring :: "(rat \<Rightarrow> string) \<Rightarrow> board \<Rightarrow> rat \<Rightarrow> tally \<Rightarrow> tally" where
  "period_scoring fmt b period t =
     (case t of (sc, rs) \<Rightarrow>
      case ideal_period_range b of (min_period, max_period) \<Rightarrow>
        if min_period \<le> period \<and> period \<le> max_period then
          (sc + 2,
           rs @ [''Good period ('' @ fmt period @ ''s in '' @ fmt min_period
                          @ ''-'' @ fmt max_period @ ''s range)''])
        else
          (sc + max 0 (1 - \<bar>period - (min_period + max_period) / 2\<bar> / 5),
           rs @ [''Period okay ('' @ fmt period @ ''s vs '' @ fmt min_period
                          @ ''-'' @ fmt max_period @ ''s ideal)'']))"

definition wind_scoring :: "rat \<Rightarrow> tally \<Rightarrow> tally" where
  "wind_scoring wind_speed t =
     (case t of (sc, rs) \<Rightarrow>
        if wind_speed < 10 then (sc + 1, rs @ [''Clean conditions''])
        else if wind_speed < 15 then (sc + 1 / 2, rs @ [''Slightly windy''])
        else (sc, rs @ [''Windy conditions'']))"

text \<open>
  The spot block runs only when \<^verbatim>\<open>spot_info\<close> is given and has characteristics. Its
  three parts (break type, wave quality, skill level) follow one another.
\<close>

definition spot_type_bonus :: "board \<Rightarrow> rat \<Rightarrow> rat \<Rightarrow> string \<Rightarrow> tally \<Rightarrow> tally" where
  "spot_type_bonus b wave_height period stype t =
     (case t of (sc, rs) \<Rightarrow>
        if stype = ''beach_break'' then
          (if btype b \<in> set [''fish/hybrid'', ''longboard'']
           then (sc + 1 / 2, rs @ [''Great for beach breaks''])
           else (sc, rs))
        else if stype \<in> set [''reef_break'', ''point_break''] then
          (if btype b = ''performance_shortboard'' \<and> period > 12
           then (sc + 1, rs @ [''Performance board ideal for reef breaks''])
           else if btype b = ''gun'' \<and> wave_height > 6
           then (sc + 3 / 2, rs @ [''Gun perfect for big reef waves''])
           else (sc, rs))
        else (sc, rs))"

definition wave_quality_bonus :: "board \<Rightarrow> string \<Rightarrow> tally \<Rightarrow> tally" where
  "wave_quality_bonus b quality t =
     (case t of (sc, rs) \<Rightarrow>
        if quality = ''forgiving'' \<and> btype b \<in> set [''fish/hybrid'', ''longboard'']
        then (sc + 1 / 2, rs @ [''Forgiving waves suit this board type''])
        else if quality \<in> set [''excellent'', ''challenging'']
                \<and> btype b = ''performance_shortboard''
        then (sc + 1 / 2, rs @ [''High-performance board for quality waves''])
        else (sc, rs))"

definition skill_level_bonus :: "board \<Rightarrow> string \<Rightarrow> tally \<Rightarrow> tally" where
  "skill_level_bonus b skill t =
     (case t of (sc, rs) \<Rightarrow>
        if skill = ''beginner_friendly'' \<and> volume b > 35
        then (sc + 1 / 2, rs @ [''Extra volume good for forgiving spots''])
        else if skill = ''advanced'' \<and> volume b < 35
        then (sc + 1 / 2, rs @ [''Lower volume suits advanced breaks''])
        else (sc, rs))"

definition spot_scoring :: "board \<Rightarrow> rat \<Rightarrow> rat \<Rightarrow> spot option \<Rightarrow> tally \<Rightarrow> tally" where
  "spot_scoring b wave_height period spot_info t =
     (case spot_info of
        None \<Rightarrow> t
      | Some info \<Rightarrow>
          (case spot_characteristics info of
             None \<Rightarrow> t
           | Some chars \<Rightarrow>
               skill_level_bonus b (get_default (skill_level chars) ''unknown'')
                 (wave_quality_bonus b (get_default (wave_quality chars) ''unknown'')
                   (spot_type_bonus b wave_height period
                      (get_default (spot_type info) ''unknown'') t))))"

text \<open>
  The construction block: four independent \<^verbatim>\<open>if\<close> statements, guarded by the
  construction being a non-empty dictionary.
\<close>

definition small_wave_bonus :: "string \<Rightarrow> construction_dict \<Rightarrow> rat \<Rightarrow> tally \<Rightarrow> tally" where
  "small_wave_bonus ctype c wave_height t =
     (case t of (sc, rs) \<Rightarrow>
        if wave_height < 3 \<and> map_of c ''small_wave_performance'' = Some ''excellent''
        then (sc + 1, rs @ [ctype @ '' construction excels in small waves''])
        else (sc, rs))"

definition powerful_wave_bonus :: "string \<Rightarrow> construction_dict \<Rightarrow> rat \<Rightarrow> tally \<Rightarrow> tally" where
  "powerful_wave_bonus ctype c period t =
     (case t of (sc, rs) \<Rightarrow>
        if period > 13 \<and> map_of c ''powerful_wave_performance'' = Some ''excellent''
        then (sc + 1, rs @ [ctype @ '' construction handles power well''])
        else (sc, rs))"

definition paddle_power_bonus ::
  "string \<Rightarrow> construction_dict \<Rightarrow> rat \<Rightarrow> rat \<Rightarrow> tally \<Rightarrow> tally" where
  "paddle_power_bonus ctype c wave_height period t =
     (case t of (sc, rs) \<Rightarrow>
        if wave_height < 3 \<and> period < 10
           \<and> map_of c ''paddle_power'' \<in> set [Some ''high'', Some ''excellent'']
        then (sc + 1 / 2, rs @ [ctype @ '' gives extra paddle power''])
        else (sc, rs))"

definition flex_bonus :: "string \<Rightarrow> construction_dict \<Rightarrow> rat \<Rightarrow> tally \<Rightarrow> tally" where
  "flex_bonus ctype c period t =
     (case t of (sc, rs) \<Rightarrow>
        if period > 12 \<and> map_of c ''flex'' \<in> set [Some ''high'', Some ''medium-high'']
        then (sc + 1 / 2, rs @ [ctype @ '' provides responsive feel''])
        else (sc, rs))"

definition construction_bonuses ::
  "string \<Rightarrow> construction_dict \<Rightarrow> rat \<Rightarrow> rat \<Rightarrow> tally \<Rightarrow> tally" where
  "construction_bonuses ctype c wave_height period t =
     (if c \<noteq> [] then
        flex_bonus ctype c period
          (paddle_power_bonus ctype c wave_height period
            (powerful_wave_bonus ctype c period
              (small_wave_bonus ctype c wave_height t)))
      else t)"

definition board_type_bonuses :: "board \<Rightarrow> rat \<Rightarrow> rat \<Rightarrow> tally \<Rightarrow> tally" where
  "board_type_bonuses b wave_height period t =
     (case t of (sc, rs) \<Rightarrow>
        if btype b = ''fish/hybrid'' \<and> wave_height < 3
        then (sc + 1, rs @ [''Fish design excels in small waves''])
        else if btype b = ''performance_shortboard'' \<and> period > 12
        then (sc + 1, rs @ [''Performance board great for powerful waves''])
        else if btype b = ''twin_fin'' \<and> 3 \<le> wave_height \<and> wave_height \<le> 5
        then (sc + 1 / 2, rs @ [''Twin fin sweet spot conditions''])
        else (sc, rs))"

text \<open>
  Resolving the construction of a board: the board's key (default \<^verbatim>\<open>"pu"\<close>), looked up
  in the table with the table's \<^verbatim>\<open>"pu"\<close> entry as default, and the empty dictionary as the
  default of that.
\<close>

definition resolve_construction_type :: "board \<Rightarrow> string" where
  "resolve_construction_type b = get_default (construction b) ''pu''"

definition resolve_construction ::
  "(string \<rightharpoonup> construction_dict) \<Rightarrow> string \<Rightarrow> construction_dict" where
  "resolve_construction props ctype = get_default (props ctype) (get_default (props ''pu'') [])"

text \<open>One pass of the loop body: the entry appended to \<^verbatim>\<open>scores\<close> for one board.\<close>

definition score_board ::
  "(rat \<Rightarrow> string) \<Rightarrow> (string \<rightharpoonup> construction_dict) \<Rightarrow> rat \<Rightarrow> rat \<Rightarrow> rat \<Rightarrow> spot option
     \<Rightarrow> board \<Rightarrow> recommendation" where
  "score_board fmt props wave_height period wind_speed spot_info b =
     (let ctype = resolve_construction_type b;
          c = resolve_construction props ctype;
          t = board_type_bonuses b wave_height period
                (construction_bonuses ctype c wave_height period
                  (spot_scoring b wave_height period spot_info
                    (wind_scoring wind_speed
                      (period_scoring fmt b period
                        (wave_height_scoring fmt b wave_height (0, []))))))
      in \<lparr>rec_board = b, construction_info = c, construction_type = ctype,
          score = fst t, reasoning = snd t\<rparr>)"

text \<open>
  \<^verbatim>\<open>list.sort(key=..., reverse=True)\<close> is a stable sort: CPython reverses the list,
  sorts it stably in ascending order of the key and reverses the result. A stable sort by
  a key has one possible result, the one of \<open>sort_key\<close>.
\<close>

definition sort_reverse :: "('a \<Rightarrow> 'k::linorder) \<Rightarrow> 'a list \<Rightarrow> 'a list" where
  "sort_reverse key xs = rev (sort_key key (rev xs))"

definition recommend_board ::
  "(rat \<Rightarrow> string) \<Rightarrow> BoardQuiver \<Rightarrow> rat \<Rightarrow> rat \<Rightarrow> rat \<Rightarrow> spot option \<Rightarrow> recommendation list" where
  "recommend_board fmt self wave_height period wind_speed spot_info =
     sort_reverse score
       (map (score_board fmt (construction_properties self) wave_height period wind_speed
               spot_info)
          (boards self))"

section \<open>Parsing the conditions\<close>

text \<open>
  The forecast payloads are JSON values. The three payloads themselves are dictionaries or
  absent, as the signature of \<^verbatim>\<open>parse_conditions\<close> declares them; what they contain is any
  JSON value. Each Python operation that can raise returns the error as a value. The
  function catches \<^verbatim>\<open>KeyError\<close>, \<^verbatim>\<open>IndexError\<close> and \<^verbatim>\<open>TypeError\<close> and returns \<^verbatim>\<open>None\<close>
  (after printing the error); \<^verbatim>\<open>.get\<close> on a value that is not a dictionary raises
  \<^verbatim>\<open>AttributeError\<close>, which is not caught. The time stamp \<^verbatim>\<open>datetime.now(...)\<close> is the
  parameter \<open>now\<close>.
\<close>

datatype json =
  JNull | JBool bool | JNum rat | JStr string | JArr "json list" | JObj "(string \<times> json) list"















section \<open>Spot resolution\<close>

text \<open>
  The spot table is the dictionary built by \<^verbatim>\<open>_load_surf_spots\<close>, in insertion order.
  Python's \<^verbatim>\<open>str.lower\<close> is the parameter \<open>lower\<close>; the order in which \<^verbatim>\<open>list(set(...))\<close>
  enumerates a set is the parameter \<open>list_set\<close>. \<open>get_spot_info\<close> returns its result and the
  lines it prints. Every spot of the table has a name, so the filter \<^verbatim>\<open>if 'name' in spot\<close>
  keeps every spot.
\<close>









section \<open>Example data\<close>

text \<open>
  Concrete inputs for the witnesses below. \<open>default_constructions\<close> is the table that
  \<^verbatim>\<open>_load_constructions\<close> returns when the constructions file is missing; the formatter
  of the examples prints every number as \<^verbatim>\<open>#\<close>.
\<close>

definition fmt_plain :: "rat \<Rightarrow> string" where
  "fmt_plain x = ''#''"

definition default_constructions :: "string \<rightharpoonup> construction_dict" where
  "default_constructions =
     [''pu'' \<mapsto>
        [(''full_name'', ''Polyurethane/Polyester''),
         (''durability'', ''medium''),
         (''flex'', ''high''),
         (''paddle_power'', ''medium''),
         (''small_wave_performance'', ''good''),
         (''powerful_wave_performance'', ''excellent''),
         (''description'', ''Traditional polyurethane foam with polyester resin.'')]]"

definition shortboard :: board where
  "shortboard = \<lparr>board_name = ''Daily driver'', btype = ''shortboard'', volume = 30,
     ideal_wave_range = (2, 4), ideal_period_range = (10, 14), construction = Some ''pu''\<rparr>"

definition fish :: board where
  "fish = \<lparr>board_name = ''Fish'', btype = ''fish/hybrid'', volume = 34,
     ideal_wave_range = (1, 4), ideal_period_range = (8, 14), construction = None\<rparr>"

definition carbon_board :: board where
  "carbon_board = \<lparr>board_name = ''Carbon'', btype = ''shortboard'', volume = 28,
     ideal_wave_range = (3, 6), ideal_period_range = (10, 16), construction = Some ''carbon''\<rparr>"

definition epoxy_only :: "string \<rightharpoonup> construction_dict" where
  "epoxy_only = [''epoxy'' \<mapsto> [(''flex'', ''high'')]]"

definition example_quiver :: BoardQuiver where
  "example_quiver = \<lparr>boards = [shortboard, fish], construction_properties = default_constructions\<rparr>"

definition carbon_quiver :: BoardQuiver where
  "carbon_quiver = \<lparr>boards = [carbon_board], construction_properties = epoxy_only\<rparr>"

definition longboard :: board where
  "longboard = \<lparr>board_name = ''Log'', btype = ''longboard'', volume = 70,
     ideal_wave_range = (1, 3), ideal_period_range = (8, 14), construction = None\<rparr>"

definition tie_quiver :: BoardQuiver where
  "tie_quiver = \<lparr>boards = [shortboard, fish, longboard],
     construction_properties = default_constructions\<rparr>"













section \<open>Properties of the scoring blocks\<close>

lemma wave_height_scoring_fst:
  "fst (wave_height_scoring fmt b wh (sc, rs)) =
     sc + (if fst (ideal_wave_range b) \<le> wh \<and> wh \<le> snd (ideal_wave_range b) then 3
           else if wh < fst (ideal_wave_range b) then max 0 (2 - (fst (ideal_wave_range b) - wh))
           else max 0 (2 - (wh - snd (ideal_wave_range b))))"
  by (simp add: wave_height_scoring_def split: prod.splits)

lemma wave_height_scoring_len:
  "length (snd (wave_height_scoring fmt b wh t)) = Suc (length (snd t))"
  by (simp add: wave_height_scoring_def split: prod.splits)

lemma period_scoring_fst:
  "fst (period_scoring fmt b p (sc, rs)) =
     sc + (if fst (ideal_period_range b) \<le> p \<and> p \<le> snd (ideal_period_range b) then 2
           else max 0 (1 - \<bar>p - (fst (ideal_period_range b) + snd (ideal_period_range b)) / 2\<bar> / 5))"
  by (simp add: period_scoring_def split: prod.splits)

lemma period_scoring_len:
  "length (snd (period_scoring fmt b p t)) = Suc (length (snd t))"
  by (simp add: period_scoring_def split: prod.splits)

lemma wind_scoring_fst:
  "fst (wind_scoring ws t) = fst t + (if ws < 10 then 1 else if ws < 15 then 1 / 2 else 0)"
  by (simp add: wind_scoring_def split: prod.splits)

lemma wind_scoring_len: "length (snd (wind_scoring ws t)) = Suc (length (snd t))"
  by (simp add: wind_scoring_def split: prod.splits)

lemma spot_type_bonus_shift:
  "fst (spot_type_bonus b wh p st t) = fst t + fst (spot_type_bonus b wh p st (0, []))"
  by (simp add: spot_type_bonus_def split: prod.splits)

lemma wave_quality_bonus_shift:
  "fst (wave_quality_bonus b q t) = fst t + fst (wave_quality_bonus b q (0, []))"
  by (simp add: wave_quality_bonus_def split: prod.splits)

lemma skill_level_bonus_shift:
  "fst (skill_level_bonus b k t) = fst t + fst (skill_level_bonus b k (0, []))"
  by (simp add: skill_level_bonus_def split: prod.splits)

lemma spot_type_bonus_ge: "0 \<le> fst (spot_type_bonus b wh p st (0, []))"
  by (simp add: spot_type_bonus_def)

lemma wave_quality_bonus_ge: "0 \<le> fst (wave_quality_bonus b q (0, []))"
  by (simp add: wave_quality_bonus_def)

lemma skill_level_bonus_ge: "0 \<le> fst (skill_level_bonus b k (0, []))"
  by (simp add: skill_level_bonus_def)

lemma spot_scoring_shift:
  "fst (spot_scoring b wh p si t) = fst t + fst (spot_scoring b wh p si (0, []))"
proof (cases si)
  case None
  then show ?thesis by (simp add: spot_scoring_def)
next
  case (Some info)
  show ?thesis
  proof (cases "spot_characteristics info")
    case None
    with Some show ?thesis by (simp add: spot_scoring_def)
  next
    case (Some chars)
    define st where "st = get_default (spot_type info) ''unknown''"
    define q where "q = get_default (wave_quality chars) ''unknown''"
    define k where "k = get_default (skill_level chars) ''unknown''"
    have eq: "spot_scoring b wh p si u =
        skill_level_bonus b k (wave_quality_bonus b q (spot_type_bonus b wh p st u))" for u
      using Some \<open>si = Some info\<close> by (simp add: spot_scoring_def st_def q_def k_def)
    have "fst (spot_scoring b wh p si u) = fst u + fst (spot_type_bonus b wh p st (0, []))
        + fst (wave_quality_bonus b q (0, [])) + fst (skill_level_bonus b k (0, []))" for u
      unfolding eq
      using skill_level_bonus_shift [of b k "wave_quality_bonus b q (spot_type_bonus b wh p st u)"]
        wave_quality_bonus_shift [of b q "spot_type_bonus b wh p st u"]
        spot_type_bonus_shift [of b wh p st u]
      by simp
    from this [of t] this [of "(0, [])"] show ?thesis by simp
  qed
qed

lemma spot_scoring_ge: "0 \<le> fst (spot_scoring b wh p si (0, []))"
proof (cases si)
  case None
  then show ?thesis by (simp add: spot_scoring_def)
next
  case (Some info)
  show ?thesis
  proof (cases "spot_characteristics info")
    case None
    with Some show ?thesis by (simp add: spot_scoring_def)
  next
    case (Some chars)
    let ?t1 = "spot_type_bonus b wh p (get_default (spot_type info) ''unknown'') (0, [])"
    let ?t2 = "wave_quality_bonus b (get_default (wave_quality chars) ''unknown'') ?t1"
    let ?t3 = "skill_level_bonus b (get_default (skill_level chars) ''unknown'') ?t2"
    have 1: "0 \<le> fst ?t1" by (rule spot_type_bonus_ge)
    have 2: "0 \<le> fst ?t2"
      using 1 wave_quality_bonus_ge [of b "get_default (wave_quality chars) ''unknown''"]
      by (subst wave_quality_bonus_shift) simp
    have 3: "0 \<le> fst ?t3"
      using 2 skill_level_bonus_ge [of b "get_default (skill_level chars) ''unknown''"]
      by (subst skill_level_bonus_shift) simp
    from 3 Some \<open>si = Some info\<close> show ?thesis by (simp add: spot_scoring_def)
  qed
qed

lemma small_wave_bonus_shift:
  "fst (small_wave_bonus ct c wh t) = fst t + fst (small_wave_bonus ct c wh (0, []))"
  by (simp add: small_wave_bonus_def split: prod.splits)

lemma powerful_wave_bonus_shift:
  "fst (powerful_wave_bonus ct c p t) = fst t + fst (powerful_wave_bonus ct c p (0, []))"
  by (simp add: powerful_wave_bonus_def split: prod.splits)

lemma paddle_power_bonus_shift:
  "fst (paddle_power_bonus ct c wh p t) = fst t + fst (paddle_power_bonus ct c wh p (0, []))"
  by (simp add: paddle_power_bonus_def split: prod.splits)

lemma flex_bonus_shift:
  "fst (flex_bonus ct c p t) = fst t + fst (flex_bonus ct c p (0, []))"
  by (simp add: flex_bonus_def split: prod.splits)

lemma small_wave_bonus_ge: "0 \<le> fst (small_wave_bonus ct c wh (0, []))"
  by (simp add: small_wave_bonus_def)

lemma powerful_wave_bonus_ge: "0 \<le> fst (powerful_wave_bonus ct c p (0, []))"
  by (simp add: powerful_wave_bonus_def)

lemma paddle_power_bonus_ge: "0 \<le> fst (paddle_power_bonus ct c wh p (0, []))"
  by (simp add: paddle_power_bonus_def)

lemma flex_bonus_ge: "0 \<le> fst (flex_bonus ct c p (0, []))"
  by (simp add: flex_bonus_def)

lemma construction_bonuses_shift:
  "fst (construction_bonuses ct c wh p t) = fst t + fst (construction_bonuses ct c wh p (0, []))"
proof (cases "c = []")
  case True
  then show ?thesis by (simp add: construction_bonuses_def)
next
  case False
  then have eq: "construction_bonuses ct c wh p u =
      flex_bonus ct c p (paddle_power_bonus ct c wh p
        (powerful_wave_bonus ct c p (small_wave_bonus ct c wh u)))" for u
    by (simp add: construction_bonuses_def)
  have "fst (construction_bonuses ct c wh p u) = fst u + fst (small_wave_bonus ct c wh (0, []))
      + fst (powerful_wave_bonus ct c p (0, [])) + fst (paddle_power_bonus ct c wh p (0, []))
      + fst (flex_bonus ct c p (0, []))" for u
    unfolding eq
    using flex_bonus_shift [of ct c p "paddle_power_bonus ct c wh p
          (powerful_wave_bonus ct c p (small_wave_bonus ct c wh u))"]
      paddle_power_bonus_shift [of ct c wh p
          "powerful_wave_bonus ct c p (small_wave_bonus ct c wh u)"]
      powerful_wave_bonus_shift [of ct c p "small_wave_bonus ct c wh u"]
      small_wave_bonus_shift [of ct c wh u]
    by simp
  from this [of t] this [of "(0, [])"] show ?thesis by simp
qed

lemma construction_bonuses_ge: "0 \<le> fst (construction_bonuses ct c wh p (0, []))"
proof (cases "c = []")
  case True
  then show ?thesis by (simp add: construction_bonuses_def)
next
  case False
  let ?t1 = "small_wave_bonus ct c wh (0, [])"
  let ?t2 = "powerful_wave_bonus ct c p ?t1"
  let ?t3 = "paddle_power_bonus ct c wh p ?t2"
  let ?t4 = "flex_bonus ct c p ?t3"
  have 1: "0 \<le> fst ?t1" by (rule small_wave_bonus_ge)
  have 2: "0 \<le> fst ?t2"
    using 1 powerful_wave_bonus_ge [of ct c p] by (subst powerful_wave_bonus_shift) simp
  have 3: "0 \<le> fst ?t3"
    using 2 paddle_power_bonus_ge [of ct c wh p] by (subst paddle_power_bonus_shift) simp
  have 4: "0 \<le> fst ?t4"
    using 3 flex_bonus_ge [of ct c p] by (subst flex_bonus_shift) simp
  from 4 False show ?thesis by (simp add: construction_bonuses_def)
qed

lemma board_type_bonuses_shift:
  "fst (board_type_bonuses b wh p t) = fst t + fst (board_type_bonuses b wh p (0, []))"
  by (simp add: board_type_bonuses_def split: prod.splits)

lemma board_type_bonuses_ge: "0 \<le> fst (board_type_bonuses b wh p (0, []))"
  by (simp add: board_type_bonuses_def)

lemma spot_scoring_len: "length (snd t) \<le> length (snd (spot_scoring b wh p si t))"
  by (cases t)
     (simp add: spot_scoring_def spot_type_bonus_def wave_quality_bonus_def
        skill_level_bonus_def split: option.splits)


lemma construction_bonuses_len:
  "length (snd t) \<le> length (snd (construction_bonuses ct c wh p t))"
  by (cases t)
     (simp add: construction_bonuses_def small_wave_bonus_def powerful_wave_bonus_def
        paddle_power_bonus_def flex_bonus_def)


lemma board_type_bonuses_len:
  "length (snd t) \<le> length (snd (board_type_bonuses b wh p t))"
  by (cases t) (simp add: board_type_bonuses_def)

lemma set_recommend_board:
  "set (recommend_board fmt self wh p ws si) =
     score_board fmt (construction_properties self) wh p ws si ` set (boards self)"
  by (simp add: recommend_board_def sort_reverse_def)

lemma score_board_sum:
  "score (score_board fmt props wh p ws si b) =
     fst (wave_height_scoring fmt b wh (0, [])) + fst (period_scoring fmt b p (0, []))
     + (if ws < 10 then 1 else if ws < 15 then 1 / 2 else 0)
     + fst (spot_scoring b wh p si (0, []))
     + fst (construction_bonuses (resolve_construction_type b)
              (resolve_construction props (resolve_construction_type b)) wh p (0, []))
     + fst (board_type_bonuses b wh p (0, []))"
proof -
  let ?ct = "resolve_construction_type b"
  let ?c = "resolve_construction props ?ct"
  let ?t1 = "wave_height_scoring fmt b wh (0, [])"
  let ?t2 = "period_scoring fmt b p ?t1"
  let ?t3 = "wind_scoring ws ?t2"
  let ?t4 = "spot_scoring b wh p si ?t3"
  let ?t5 = "construction_bonuses ?ct ?c wh p ?t4"
  let ?t6 = "board_type_bonuses b wh p ?t5"
  have 2: "fst ?t2 = fst ?t1 + fst (period_scoring fmt b p (0, []))"
    using period_scoring_fst [of fmt b p "fst ?t1" "snd ?t1"]
      period_scoring_fst [of fmt b p 0 "[]"] by simp
  have 3: "fst ?t3 = fst ?t2 + (if ws < 10 then 1 else if ws < 15 then 1 / 2 else 0)"
    by (rule wind_scoring_fst)
  have 4: "fst ?t4 = fst ?t3 + fst (spot_scoring b wh p si (0, []))"
    by (rule spot_scoring_shift)
  have 5: "fst ?t5 = fst ?t4 + fst (construction_bonuses ?ct ?c wh p (0, []))"
    by (rule construction_bonuses_shift)
  have 6: "fst ?t6 = fst ?t5 + fst (board_type_bonuses b wh p (0, []))"
    by (rule board_type_bonuses_shift)
  have "score (score_board fmt props wh p ws si b) = fst ?t6"
    by (simp add: score_board_def Let_def)
  with 2 3 4 5 6 show ?thesis by (simp only:)
qed

lemma score_board_reasoning:
  "3 \<le> length (reasoning (score_board fmt props wh p ws si b))"
proof -
  let ?ct = "resolve_construction_type b"
  let ?c = "resolve_construction props ?ct"
  let ?t3 = "wind_scoring ws (period_scoring fmt b p (wave_height_scoring fmt b wh (0, [])))"
  let ?t4 = "spot_scoring b wh p si ?t3"
  let ?t5 = "construction_bonuses ?ct ?c wh p ?t4"
  let ?t6 = "board_type_bonuses b wh p ?t5"
  have "length (snd ?t3) = 3"
    by (simp add: wind_scoring_len period_scoring_len wave_height_scoring_len)
  moreover have "length (snd ?t3) \<le> length (snd ?t4)" by (rule spot_scoring_len)
  moreover have "length (snd ?t4) \<le> length (snd ?t5)" by (rule construction_bonuses_len)
  moreover have "length (snd ?t5) \<le> length (snd ?t6)" by (rule board_type_bonuses_len)
  moreover have "reasoning (score_board fmt props wh p ws si b) = snd ?t6"
    by (simp add: score_board_def Let_def)
  ultimately show ?thesis by simp
qed

lemma score_board_nonneg: "0 \<le> score (score_board fmt props wh p ws si b)"
proof -
  have "0 \<le> fst (wave_height_scoring fmt b wh (0, []))"
    by (simp add: wave_height_scoring_fst)
  moreover have "0 \<le> fst (period_scoring fmt b p (0, []))"
    by (simp add: period_scoring_fst)
  moreover have "(0::rat) \<le> (if ws < 10 then 1 else if ws < 15 then 1 / 2 else 0)"
    by simp
  moreover note spot_scoring_ge [of b wh p si]
    construction_bonuses_ge [of "resolve_construction_type b"
      "resolve_construction props (resolve_construction_type b)" wh p]
    board_type_bonuses_ge [of b wh p]
  ultimately show ?thesis
    unfolding score_board_sum by linarith
qed

lemma score_board_sel:
  "rec_board (score_board fmt props wh p ws si b) = b"
  "construction_type (score_board fmt props wh p ws si b) = resolve_construction_type b"
  "construction_info (score_board fmt props wh p ws si b) =
     resolve_construction props (resolve_construction_type b)"
  by (simp_all add: score_board_def Let_def)


lemmas scoring_defs =
  score_board_def wave_height_scoring_def period_scoring_def wind_scoring_def
  spot_scoring_def spot_type_bonus_def wave_quality_bonus_def skill_level_bonus_def
  construction_bonuses_def small_wave_bonus_def powerful_wave_bonus_def
  paddle_power_bonus_def flex_bonus_def board_type_bonuses_def
  resolve_construction_type_def resolve_construction_def get_default_def

lemmas example_defs =
  example_quiver_def carbon_quiver_def shortboard_def fish_def carbon_board_def
  default_constructions_def epoxy_only_def fmt_plain_def

lemma tail_shift:
  "fst (board_type_bonuses b wh p (construction_bonuses ct c wh p (spot_scoring b wh p si t))) =
   fst t + fst (board_type_bonuses b wh p
                  (construction_bonuses ct c wh p (spot_scoring b wh p si (0, []))))"
  using board_type_bonuses_shift [of b wh p "construction_bonuses ct c wh p (spot_scoring b wh p si t)"]
    board_type_bonuses_shift [of b wh p "construction_bonuses ct c wh p (spot_scoring b wh p si (0, []))"]
    construction_bonuses_shift [of ct c wh p "spot_scoring b wh p si t"]
    construction_bonuses_shift [of ct c wh p "spot_scoring b wh p si (0, [])"]
    spot_scoring_shift [of b wh p si t]
  by simp

subsection \<open>The stable descending sort\<close>

lemma sort_reverse_descending:
  "sorted_wrt (\<lambda>x y. key x \<ge> key y) (sort_reverse key xs)"
proof -
  have "sorted (map key (sort_key key (rev xs)))" by (rule sorted_sort_key)
  then have "sorted_wrt (\<lambda>x y. key x \<le> key y) (sort_key key (rev xs))"
    by (simp add: sorted_map)
  then show ?thesis by (simp add: sort_reverse_def sorted_wrt_rev)
qed

lemma sort_reverse_stable:
  "filter (\<lambda>x. key x = k) (sort_reverse key xs) = filter (\<lambda>x. key x = k) xs"
  by (simp add: sort_reverse_def rev_filter [symmetric] sort_key_stable)

lemma mset_sort_reverse: "mset (sort_reverse key xs) = mset xs"
  by (simp add: sort_reverse_def)

subsection \<open>Parsing and spot lookup\<close>













section \<open>The claims\<close>

text \<open>
  Claim C4. The wind block adds to the score exactly 1 when the wind speed is below 10,
  exactly 1/2 when it is at least 10 and below 15, and nothing from 15 on (1 at speed 9,
  1/2 at speed 12, 0 at speed 20), and it appends one wind reasoning string in each of the
  three cases. For every board, the score of its recommendation is that bonus plus the
  score the other blocks give when the wind block is left out.
\<close>

theorem wind_contribution:
  "fst (wind_scoring wind_speed (sc, rs)) =
     sc + (if wind_speed < 10 then 1 else if wind_speed < 15 then 1 / 2 else 0)
   \<and> snd (wind_scoring wind_speed (sc, rs)) =
     rs @ [if wind_speed < 10 then ''Clean conditions''
           else if wind_speed < 15 then ''Slightly windy'' else ''Windy conditions'']
   \<and> fst (wind_scoring 9 (sc, rs)) = sc + 1
   \<and> fst (wind_scoring 12 (sc, rs)) = sc + 1 / 2
   \<and> fst (wind_scoring 20 (sc, rs)) = sc
   \<and> score (score_board fmt props wave_height period wind_speed spot_info b) =
       (if wind_speed < 10 then 1 else if wind_speed < 15 then 1 / 2 else 0)
       + fst (board_type_bonuses b wave_height period
               (construction_bonuses (resolve_construction_type b)
                  (resolve_construction props (resolve_construction_type b)) wave_height period
                  (spot_scoring b wave_height period spot_info
                    (period_scoring fmt b period
                      (wave_height_scoring fmt b wave_height (0, []))))))"
proof -
  let ?t2 = "period_scoring fmt b period (wave_height_scoring fmt b wave_height (0, []))"
  let ?ct = "resolve_construction_type b"
  let ?c = "resolve_construction props ?ct"
  have "score (score_board fmt props wave_height period wind_speed spot_info b) =
      fst (board_type_bonuses b wave_height period (construction_bonuses ?ct ?c wave_height period
        (spot_scoring b wave_height period spot_info (wind_scoring wind_speed ?t2))))"
    by (simp add: score_board_def Let_def)
  also have "\<dots> = fst (wind_scoring wind_speed ?t2) + fst (board_type_bonuses b wave_height period
      (construction_bonuses ?ct ?c wave_height period
        (spot_scoring b wave_height period spot_info (0, []))))"
    by (rule tail_shift)
  also have "\<dots> = (if wind_speed < 10 then 1 else if wind_speed < 15 then 1 / 2 else 0)
      + (fst ?t2 + fst (board_type_bonuses b wave_height period
      (construction_bonuses ?ct ?c wave_height period
        (spot_scoring b wave_height period spot_info (0, [])))))"
    by (simp only: wind_scoring_fst add.assoc add.left_commute)
  also have "fst ?t2 + fst (board_type_bonuses b wave_height period
      (construction_bonuses ?ct ?c wave_height period
        (spot_scoring b wave_height period spot_info (0, [])))) =
      fst (board_type_bonuses b wave_height period
      (construction_bonuses ?ct ?c wave_height period
        (spot_scoring b wave_height period spot_info ?t2)))"
    by (rule tail_shift [symmetric])
  finally have board: "score (score_board fmt props wave_height period wind_speed spot_info b) =
      (if wind_speed < 10 then 1 else if wind_speed < 15 then 1 / 2 else 0)
      + fst (board_type_bonuses b wave_height period
      (construction_bonuses ?ct ?c wave_height period
        (spot_scoring b wave_height period spot_info ?t2)))" .
  have step: "fst (wind_scoring w (sc, rs)) = sc + (if w < 10 then 1 else if w < 15 then 1 / 2 else 0)"
    for w by (simp add: wind_scoring_fst)
  have msg: "snd (wind_scoring wind_speed (sc, rs)) =
     rs @ [if wind_speed < 10 then ''Clean conditions''
           else if wind_speed < 15 then ''Slightly windy'' else ''Windy conditions'']"
    by (simp add: wind_scoring_def)
  from step [of wind_speed] step [of 9] step [of 12] step [of 20] msg board
  show ?thesis by simp
qed

theorem wind_contribution_witness:
  "score (score_board fmt_plain default_constructions 3 12 12 None shortboard) = 1 / 2 + 5
   \<and> snd (wind_scoring 12 (5, [''a'', ''b''])) = [''a'', ''b'', ''Slightly windy'']"
proof -
  have "fst (board_type_bonuses shortboard 3 12
               (construction_bonuses (resolve_construction_type shortboard)
                  (resolve_construction default_constructions (resolve_construction_type shortboard)) 3 12
                  (spot_scoring shortboard 3 12 None
                    (period_scoring fmt_plain shortboard 12
                      (wave_height_scoring fmt_plain shortboard 3 (0, [])))))) = 5"
    by (simp add: scoring_defs example_defs)
  with wind_contribution [of 12 5 "[''a'', ''b'']" fmt_plain default_constructions 3 12 None shortboard]
  show ?thesis by simp
qed

text \<open>
  Claim C5. For a board with ideal wave range \<open>(min_wave, max_wave)\<close>, the wave-height block
  adds to the score exactly 3 when \<open>min_wave \<le> wave_height \<le> max_wave\<close>, and otherwise
  \<open>max 0 (2 - d)\<close>, where \<open>d\<close> is \<open>min_wave - wave_height\<close> below the range and
  \<open>wave_height - max_wave\<close> above it. The score of the board's recommendation is that
  amount plus the score the other blocks give when the wave-height block is left out.
\<close>

theorem wave_height_contribution:
  assumes "ideal_wave_range b = (min_wave, max_wave)"
  shows "fst (wave_height_scoring fmt b wave_height (sc, rs)) =
     sc + (if min_wave \<le> wave_height \<and> wave_height \<le> max_wave then 3
           else if wave_height < min_wave then max 0 (2 - (min_wave - wave_height))
           else max 0 (2 - (wave_height - max_wave)))
   \<and> score (score_board fmt props wave_height period wind_speed spot_info b) =
       (if min_wave \<le> wave_height \<and> wave_height \<le> max_wave then 3
        else if wave_height < min_wave then max 0 (2 - (min_wave - wave_height))
        else max 0 (2 - (wave_height - max_wave)))
       + fst (board_type_bonuses b wave_height period
               (construction_bonuses (resolve_construction_type b)
                  (resolve_construction props (resolve_construction_type b)) wave_height period
                  (spot_scoring b wave_height period spot_info
                    (wind_scoring wind_speed (period_scoring fmt b period (0, []))))))"
proof -
  let ?ct = "resolve_construction_type b"
  let ?c = "resolve_construction props ?ct"
  let ?w = "if min_wave \<le> wave_height \<and> wave_height \<le> max_wave then 3
           else if wave_height < min_wave then max 0 (2 - (min_wave - wave_height))
           else max 0 (2 - (wave_height - max_wave))"
  let ?t1 = "wave_height_scoring fmt b wave_height (0, [])"
  have step: "fst (wave_height_scoring fmt b wave_height (x, ys)) = x + ?w" for x ys
    using assms by (simp add: wave_height_scoring_fst)
  have mid: "fst (wind_scoring wind_speed (period_scoring fmt b period t)) =
      fst t + fst (wind_scoring wind_speed (period_scoring fmt b period (0, [])))" for t
    using period_scoring_fst [of fmt b period "fst t" "snd t"]
      period_scoring_fst [of fmt b period 0 "[]"]
    by (simp add: wind_scoring_fst)
  have "score (score_board fmt props wave_height period wind_speed spot_info b) =
      fst (board_type_bonuses b wave_height period (construction_bonuses ?ct ?c wave_height period
        (spot_scoring b wave_height period spot_info
          (wind_scoring wind_speed (period_scoring fmt b period ?t1)))))"
    by (simp add: score_board_def Let_def)
  also have "\<dots> = fst (wind_scoring wind_speed (period_scoring fmt b period ?t1))
      + fst (board_type_bonuses b wave_height period (construction_bonuses ?ct ?c wave_height period
          (spot_scoring b wave_height period spot_info (0, []))))"
    by (rule tail_shift)
  also have "\<dots> = ?w + (fst (wind_scoring wind_speed (period_scoring fmt b period (0, [])))
      + fst (board_type_bonuses b wave_height period (construction_bonuses ?ct ?c wave_height period
          (spot_scoring b wave_height period spot_info (0, [])))))"
    using mid [of ?t1] step [of 0 "[]"] by (simp only: add.assoc add_0)
  also have "fst (wind_scoring wind_speed (period_scoring fmt b period (0, [])))
      + fst (board_type_bonuses b wave_height period (construction_bonuses ?ct ?c wave_height period
          (spot_scoring b wave_height period spot_info (0, [])))) =
      fst (board_type_bonuses b wave_height period (construction_bonuses ?ct ?c wave_height period
          (spot_scoring b wave_height period spot_info
            (wind_scoring wind_speed (period_scoring fmt b period (0, []))))))"
    by (rule tail_shift [symmetric])
  finally show ?thesis using step [of sc rs] by (simp only: simp_thms)
qed

theorem wave_height_contribution_witness:
  "ideal_wave_range shortboard = (2, 4)
   \<and> fst (wave_height_scoring fmt_plain shortboard 3 (0, [])) = 3
   \<and> fst (wave_height_scoring fmt_plain shortboard (1 / 2) (0, [])) = 1 / 2
   \<and> fst (wave_height_scoring fmt_plain shortboard 5 (0, [])) = 1
   \<and> fst (wave_height_scoring fmt_plain shortboard 7 (0, [])) = 0"
proof -
  have r: "ideal_wave_range shortboard = (2, 4)" by (simp add: shortboard_def)
  show ?thesis
    using r wave_height_contribution [OF r, of fmt_plain 3 0 "[]"]
      wave_height_contribution [OF r, of fmt_plain "1 / 2" 0 "[]"]
      wave_height_contribution [OF r, of fmt_plain 5 0 "[]"]
      wave_height_contribution [OF r, of fmt_plain 7 0 "[]"]
    by simp
qed

text \<open>
  Claim C6. For a board with ideal period range \<open>(min_period, max_period)\<close>, the period block
  adds to the score exactly 2 when \<open>min_period \<le> period \<le> max_period\<close>, and otherwise
  \<open>max 0 (1 - \<bar>period - (min_period + max_period) / 2\<bar> / 5)\<close>. The score of the board's
  recommendation is that amount plus the score the other blocks give when the period block
  is left out.
\<close>

theorem period_contribution:
  assumes "ideal_period_range b = (min_period, max_period)"
  shows "fst (period_scoring fmt b period (sc, rs)) =
     sc + (if min_period \<le> period \<and> period \<le> max_period then 2
           else max 0 (1 - \<bar>period - (min_period + max_period) / 2\<bar> / 5))
   \<and> score (score_board fmt props wave_height period wind_speed spot_info b) =
       (if min_period \<le> period \<and> period \<le> max_period then 2
        else max 0 (1 - \<bar>period - (min_period + max_period) / 2\<bar> / 5))
       + fst (board_type_bonuses b wave_height period
               (construction_bonuses (resolve_construction_type b)
                  (resolve_construction props (resolve_construction_type b)) wave_height period
                  (spot_scoring b wave_height period spot_info
                    (wind_scoring wind_speed (wave_height_scoring fmt b wave_height (0, []))))))"
proof -
  let ?ct = "resolve_construction_type b"
  let ?c = "resolve_construction props ?ct"
  let ?p = "if min_period \<le> period \<and> period \<le> max_period then 2
           else max 0 (1 - \<bar>period - (min_period + max_period) / 2\<bar> / 5)"
  let ?t1 = "wave_height_scoring fmt b wave_height (0, [])"
  have step: "fst (period_scoring fmt b period (x, ys)) = x + ?p" for x ys
    using assms by (simp add: period_scoring_fst)
  have mid: "fst (wind_scoring wind_speed (period_scoring fmt b period ?t1)) =
      ?p + fst (wind_scoring wind_speed ?t1)"
    using step [of "fst ?t1" "snd ?t1"]
    by (simp add: wind_scoring_fst)
  have "score (score_board fmt props wave_height period wind_speed spot_info b) =
      fst (board_type_bonuses b wave_height period (construction_bonuses ?ct ?c wave_height period
        (spot_scoring b wave_height period spot_info
          (wind_scoring wind_speed (period_scoring fmt b period ?t1)))))"
    by (simp add: score_board_def Let_def)
  also have "\<dots> = fst (wind_scoring wind_speed (period_scoring fmt b period ?t1))
      + fst (board_type_bonuses b wave_height period (construction_bonuses ?ct ?c wave_height period
          (spot_scoring b wave_height period spot_info (0, []))))"
    by (rule tail_shift)
  also have "\<dots> = ?p + (fst (wind_scoring wind_speed ?t1)
      + fst (board_type_bonuses b wave_height period (construction_bonuses ?ct ?c wave_height period
          (spot_scoring b wave_height period spot_info (0, [])))))"
    by (simp only: mid add.assoc)
  also have "fst (wind_scoring wind_speed ?t1)
      + fst (board_type_bonuses b wave_height period (construction_bonuses ?ct ?c wave_height period
          (spot_scoring b wave_height period spot_info (0, [])))) =
      fst (board_type_bonuses b wave_height period (construction_bonuses ?ct ?c wave_height period
          (spot_scoring b wave_height period spot_info (wind_scoring wind_speed ?t1))))"
    by (rule tail_shift [symmetric])
  finally show ?thesis using step [of sc rs] by (simp only: simp_thms)
qed

theorem period_contribution_witness:
  "ideal_period_range shortboard = (10, 14)
   \<and> fst (period_scoring fmt_plain shortboard 12 (0, [])) = 2
   \<and> fst (period_scoring fmt_plain shortboard 8 (0, [])) = 1 / 5
   \<and> fst (period_scoring fmt_plain shortboard 20 (0, [])) = 0"
proof -
  have r: "ideal_period_range shortboard = (10, 14)" by (simp add: shortboard_def)
  show ?thesis
    using r period_contribution [OF r, of fmt_plain 12 0 "[]"]
      period_contribution [OF r, of fmt_plain 8 0 "[]"]
      period_contribution [OF r, of fmt_plain 20 0 "[]"]
    by simp
qed

text \<open>
  Claim C7. The list returned by \<open>recommend_board\<close> is in descending order of score: of any
  two entries the earlier one has a score at least that of the later one. Entries of equal
  score keep the relative order their boards have in the catalog: for every score \<open>k\<close>, the
  entries of score \<open>k\<close> are, in this order, the entries of score \<open>k\<close> of the unsorted list,
  which follows the catalog.
\<close>

theorem recommend_board_sorted:
  "sorted_wrt (\<lambda>earlier later. score earlier \<ge> score later)
     (recommend_board fmt self wave_height period wind_speed spot_info)
   \<and> (\<forall>k. filter (\<lambda>r. score r = k) (recommend_board fmt self wave_height period wind_speed spot_info)
          = filter (\<lambda>r. score r = k)
              (map (score_board fmt (construction_properties self) wave_height period wind_speed
                      spot_info) (boards self)))"
  by (simp add: recommend_board_def sort_reverse_descending sort_reverse_stable)

theorem recommend_board_sorted_witness:
  "sorted_wrt (\<lambda>earlier later. score earlier \<ge> score later)
     (recommend_board fmt_plain tie_quiver 2 12 5 None)
   \<and> map rec_board (filter (\<lambda>r. score r = 6) (recommend_board fmt_plain tie_quiver 2 12 5 None))
       = [shortboard, longboard]
   \<and> map rec_board (filter (\<lambda>r. score r = 7) (recommend_board fmt_plain tie_quiver 2 12 5 None))
       = [fish]"
proof -
  have s: "map score (map (score_board fmt_plain (construction_properties tie_quiver) 2 12 5 None)
      (boards tie_quiver)) = [6, 7, 6]"
    by (simp add: tie_quiver_def longboard_def scoring_defs example_defs Let_def)
  have b: "map rec_board (map (score_board fmt_plain (construction_properties tie_quiver) 2 12 5 None)
      (boards tie_quiver)) = [shortboard, fish, longboard]"
    by (simp add: tie_quiver_def score_board_sel)
  from s b have
    "map rec_board (filter (\<lambda>r. score r = 6)
        (map (score_board fmt_plain (construction_properties tie_quiver) 2 12 5 None)
          (boards tie_quiver))) = [shortboard, longboard]"
    "map rec_board (filter (\<lambda>r. score r = 7)
        (map (score_board fmt_plain (construction_properties tie_quiver) 2 12 5 None)
          (boards tie_quiver))) = [fish]"
    by (simp_all add: tie_quiver_def)
  with recommend_board_sorted [of fmt_plain tie_quiver 2 12 5 None] show ?thesis
    by simp
qed


text \<open>
  Claim C8. Whatever the catalog, the construction table, the wave height, the period, the
  wind speed and the spot information, every recommendation returned by \<open>recommend_board\<close>
  has a non-negative score.
\<close>

theorem score_nonneg:
  "\<forall>r \<in> set (recommend_board fmt self wave_height period wind_speed spot_info). 0 \<le> score r"
  by (auto simp: set_recommend_board score_board_nonneg)

theorem score_nonneg_witness:
  "0 \<le> score (hd (recommend_board fmt_plain example_quiver 6 12 20 None))"
proof -
  have "recommend_board fmt_plain example_quiver 6 12 20 None \<noteq> []"
    by (simp add: recommend_board_def sort_reverse_def example_quiver_def)
  then have "hd (recommend_board fmt_plain example_quiver 6 12 20 None)
      \<in> set (recommend_board fmt_plain example_quiver 6 12 20 None)"
    by (rule hd_in_set)
  with score_nonneg [of fmt_plain example_quiver 6 12 20 None] show ?thesis by blast
qed

text \<open>
  Claim C10. \<open>recommend_board\<close> returns exactly one recommendation per board of the catalog:
  the result is as long as the catalog and its boards are the catalog's boards, each as
  often as the catalog has it. Every recommendation has at least three reasoning strings.
\<close>

theorem one_recommendation_per_board:
  "length (recommend_board fmt self wave_height period wind_speed spot_info) = length (boards self)
   \<and> mset (map rec_board (recommend_board fmt self wave_height period wind_speed spot_info))
       = mset (boards self)
   \<and> (\<forall>r \<in> set (recommend_board fmt self wave_height period wind_speed spot_info).
         3 \<le> length (reasoning r))"
proof -
  let ?f = "score_board fmt (construction_properties self) wave_height period wind_speed spot_info"
  have "mset (recommend_board fmt self wave_height period wind_speed spot_info)
      = mset (map ?f (boards self))"
    by (simp add: recommend_board_def mset_sort_reverse)
  then have "mset (map rec_board (recommend_board fmt self wave_height period wind_speed spot_info))
      = mset (map rec_board (map ?f (boards self)))"
    by (simp only: mset_map)
  also have "map rec_board (map ?f (boards self)) = boards self"
    by (simp add: score_board_sel map_idI)
  finally have m: "mset (map rec_board (recommend_board fmt self wave_height period wind_speed spot_info))
      = mset (boards self)" .
  have l: "length (recommend_board fmt self wave_height period wind_speed spot_info) = length (boards self)"
    by (simp add: recommend_board_def sort_reverse_def)
  have r: "\<forall>r \<in> set (recommend_board fmt self wave_height period wind_speed spot_info).
         3 \<le> length (reasoning r)"
    by (auto simp: set_recommend_board score_board_reasoning)
  from l m r show ?thesis by blast
qed

theorem one_recommendation_per_board_witness:
  "length (recommend_board fmt_plain tie_quiver 2 12 5 None) = 3
   \<and> mset (map rec_board (recommend_board fmt_plain tie_quiver 2 12 5 None))
       = mset [shortboard, fish, longboard]
   \<and> 3 \<le> length (reasoning (hd (recommend_board fmt_plain tie_quiver 2 12 5 None)))"
proof -
  have "recommend_board fmt_plain tie_quiver 2 12 5 None \<noteq> []"
    by (simp add: recommend_board_def sort_reverse_def tie_quiver_def)
  then have "hd (recommend_board fmt_plain tie_quiver 2 12 5 None)
      \<in> set (recommend_board fmt_plain tie_quiver 2 12 5 None)"
    by (rule hd_in_set)
  moreover have "boards tie_quiver = [shortboard, fish, longboard]"
    by (simp add: tie_quiver_def)
  ultimately show ?thesis
    using one_recommendation_per_board [of fmt_plain tie_quiver 2 12 5 None] by simp
qed

text \<open>
  Claim C1, as amended. Without spot information, a recommendation whose board has the wave
  height and the period inside its ideal ranges, whose construction triggers none of the
  construction bonuses and whose board type triggers none of the board-type bonuses, has
  the score \<open>3 + 2 + wind bonus\<close>, the wind bonus being 1, 1/2 or 0. A block triggers no
  bonus when it returns the empty tally \<open>(0, [])\<close> unchanged.
\<close>

theorem in_range_score:
  assumes "r \<in> set (recommend_board fmt self wave_height period wind_speed None)"
    and "ideal_wave_range (rec_board r) = (min_wave, max_wave)"
    and "min_wave \<le> wave_height" and "wave_height \<le> max_wave"
    and "ideal_period_range (rec_board r) = (min_period, max_period)"
    and "min_period \<le> period" and "period \<le> max_period"
    and "construction_bonuses (construction_type r) (construction_info r) wave_height period (0, [])
          = (0, [])"
    and "board_type_bonuses (rec_board r) wave_height period (0, []) = (0, [])"
  shows "score r = 3 + 2 + (if wind_speed < 10 then 1 else if wind_speed < 15 then 1 / 2 else 0)"
proof -
  from assms(1) obtain b where
    r: "r = score_board fmt (construction_properties self) wave_height period wind_speed None b"
    by (auto simp: set_recommend_board)
  have b: "rec_board r = b"
    and ct: "construction_type r = resolve_construction_type b"
    and ci: "construction_info r =
      resolve_construction (construction_properties self) (resolve_construction_type b)"
    by (simp_all add: r score_board_sel)
  have w: "fst (wave_height_scoring fmt b wave_height (0, [])) = 3"
    using assms(2-4) by (simp add: wave_height_scoring_fst b)
  have p: "fst (period_scoring fmt b period (0, [])) = 2"
    using assms(5-7) by (simp add: period_scoring_fst b)
  have s: "fst (spot_scoring b wave_height period None (0, [])) = 0"
    by (simp add: spot_scoring_def)
  have c: "fst (construction_bonuses (resolve_construction_type b)
      (resolve_construction (construction_properties self) (resolve_construction_type b))
      wave_height period (0, [])) = 0"
    using assms(8) by (simp add: ct ci)
  have t: "fst (board_type_bonuses b wave_height period (0, [])) = 0"
    using assms(9) by (simp add: b)
  show ?thesis
    unfolding r score_board_sum w p s c t by simp
qed

theorem in_range_score_witness:
  "score (hd (recommend_board fmt_plain example_quiver 3 12 5 None)) = 6
   \<and> score (hd (recommend_board fmt_plain example_quiver 3 12 12 None)) = 11 / 2
   \<and> score (hd (recommend_board fmt_plain example_quiver 3 12 20 None)) = 5"
proof -
  have e: "hd (recommend_board fmt_plain example_quiver 3 12 ws None) =
      score_board fmt_plain default_constructions 3 12 ws None shortboard" for ws
    by (simp add: recommend_board_def sort_reverse_def scoring_defs example_defs Let_def)
  have m: "hd (recommend_board fmt_plain example_quiver 3 12 ws None)
      \<in> set (recommend_board fmt_plain example_quiver 3 12 ws None)" for ws
    by (rule hd_in_set) (simp add: recommend_board_def sort_reverse_def example_quiver_def)
  have h: "ideal_wave_range (rec_board (hd (recommend_board fmt_plain example_quiver 3 12 ws None))) = (2, 4)"
    "ideal_period_range (rec_board (hd (recommend_board fmt_plain example_quiver 3 12 ws None))) = (10, 14)"
    "construction_bonuses (construction_type (hd (recommend_board fmt_plain example_quiver 3 12 ws None)))
       (construction_info (hd (recommend_board fmt_plain example_quiver 3 12 ws None))) 3 12 (0, [])
     = (0, [])"
    "board_type_bonuses (rec_board (hd (recommend_board fmt_plain example_quiver 3 12 ws None))) 3 12 (0, [])
     = (0, [])" for ws
    unfolding e by (simp_all add: scoring_defs example_defs Let_def)
  have "score (hd (recommend_board fmt_plain example_quiver 3 12 ws None)) =
      3 + 2 + (if ws < 10 then 1 else if ws < 15 then 1 / 2 else 0)" for ws
    by (rule in_range_score [OF m h(1) _ _ h(2) _ _ h(3) h(4)]) simp_all
  from this [of 5] this [of 12] this [of 20] show ?thesis by simp
qed

text \<open>
  Claim C1 as stated leaves the board-type bonuses out. The fish of the example quiver, in
  2 ft waves of period 12 with wind speed 5, is inside both ideal ranges and earns no
  construction bonus, and scores 7: the board-type block adds 1 for a fish in waves
  below 3 ft.
\<close>

theorem in_range_score_counterexample:
  "hd (recommend_board fmt_plain example_quiver 2 12 5 None)
     \<in> set (recommend_board fmt_plain example_quiver 2 12 5 None)
   \<and> rec_board (hd (recommend_board fmt_plain example_quiver 2 12 5 None)) = fish
   \<and> ideal_wave_range fish = (1, 4) \<and> (1::rat) \<le> 2 \<and> (2::rat) \<le> 4
   \<and> ideal_period_range fish = (8, 14) \<and> (8::rat) \<le> 12 \<and> (12::rat) \<le> 14
   \<and> construction_bonuses
        (construction_type (hd (recommend_board fmt_plain example_quiver 2 12 5 None)))
        (construction_info (hd (recommend_board fmt_plain example_quiver 2 12 5 None)))
        2 12 (0, []) = (0, [])
   \<and> score (hd (recommend_board fmt_plain example_quiver 2 12 5 None)) = 7
   \<and> score (hd (recommend_board fmt_plain example_quiver 2 12 5 None)) \<noteq> 3 + 2 + 1"
proof -
  have e: "recommend_board fmt_plain example_quiver 2 12 5 None =
      [score_board fmt_plain default_constructions 2 12 5 None fish,
       score_board fmt_plain default_constructions 2 12 5 None shortboard]"
    by (simp add: recommend_board_def sort_reverse_def scoring_defs example_defs Let_def)
  show ?thesis
    unfolding e by (simp add: scoring_defs example_defs Let_def)
qed

text \<open>
  Claim C2, as amended. Every recommendation carries the construction key of its board
  (\<^verbatim>\<open>"pu"\<close> when the board names none) and the construction the table has under that key,
  else the one under \<^verbatim>\<open>"pu"\<close>, else the empty construction. When the table has a
  \<^verbatim>\<open>"pu"\<close> entry the construction is an entry of the table. With an empty construction the
  construction block is skipped.
\<close>

theorem construction_resolution:
  assumes "r \<in> set (recommend_board fmt self wave_height period wind_speed spot_info)"
  shows "construction_type r = (case construction (rec_board r) of None \<Rightarrow> ''pu'' | Some k \<Rightarrow> k)
   \<and> construction_info r =
       (case construction_properties self (construction_type r) of
          Some c \<Rightarrow> c
        | None \<Rightarrow> (case construction_properties self ''pu'' of Some c \<Rightarrow> c | None \<Rightarrow> []))
   \<and> (construction_properties self ''pu'' \<noteq> None
        \<longrightarrow> construction_info r \<in> ran (construction_properties self))
   \<and> (construction_info r = []
        \<longrightarrow> construction_bonuses (construction_type r) (construction_info r) wave_height period t
            = t)"
proof -
  from assms obtain b where
    r: "r = score_board fmt (construction_properties self) wave_height period wind_speed spot_info b"
    by (auto simp: set_recommend_board)
  have 1: "construction_type r = (case construction (rec_board r) of None \<Rightarrow> ''pu'' | Some k \<Rightarrow> k)"
    by (simp add: r score_board_sel resolve_construction_type_def get_default_def)
  have 2: "construction_info r =
       (case construction_properties self (construction_type r) of
          Some c \<Rightarrow> c
        | None \<Rightarrow> (case construction_properties self ''pu'' of Some c \<Rightarrow> c | None \<Rightarrow> []))"
    by (simp add: r score_board_sel resolve_construction_def get_default_def)
  have 3: "construction_info r \<in> ran (construction_properties self)"
    if "construction_properties self ''pu'' \<noteq> None"
    using that unfolding 2 by (auto simp: ran_def split: option.splits)
  have 4: "construction_bonuses (construction_type r) (construction_info r) wave_height period t = t"
    if "construction_info r = []"
    using that by (simp add: construction_bonuses_def)
  from 1 2 3 4 show ?thesis by blast
qed

theorem construction_resolution_witness:
  "construction_info (hd (recommend_board fmt_plain example_quiver 6 12 20 None))
     \<in> ran default_constructions
   \<and> construction_type (hd (recommend_board fmt_plain carbon_quiver 2 12 5 None)) = ''carbon''
   \<and> construction_info (hd (recommend_board fmt_plain carbon_quiver 2 12 5 None)) = []
   \<and> construction_bonuses ''carbon'' [] 2 12 (4, [''a'']) = (4, [''a''])"
proof -
  have m1: "hd (recommend_board fmt_plain example_quiver 6 12 20 None)
      \<in> set (recommend_board fmt_plain example_quiver 6 12 20 None)"
    by (rule hd_in_set) (simp add: recommend_board_def sort_reverse_def example_quiver_def)
  have m2: "hd (recommend_board fmt_plain carbon_quiver 2 12 5 None)
      \<in> set (recommend_board fmt_plain carbon_quiver 2 12 5 None)"
    by (rule hd_in_set) (simp add: recommend_board_def sort_reverse_def carbon_quiver_def)
  have p: "construction_properties example_quiver = default_constructions"
    "default_constructions ''pu'' \<noteq> None"
    by (simp_all add: example_defs)
  have q: "rec_board (hd (recommend_board fmt_plain carbon_quiver 2 12 5 None)) = carbon_board"
    by (simp add: recommend_board_def sort_reverse_def carbon_quiver_def score_board_sel)
  have k: "construction carbon_board = Some ''carbon''"
    "construction_properties carbon_quiver ''carbon'' = None"
    "construction_properties carbon_quiver ''pu'' = None"
    by (simp_all add: example_defs)
  let ?r1 = "hd (recommend_board fmt_plain example_quiver 6 12 20 None)"
  let ?r2 = "hd (recommend_board fmt_plain carbon_quiver 2 12 5 None)"
  from construction_resolution [OF m1, of "(0, [])"]
  have "construction_properties example_quiver ''pu'' \<noteq> None
      \<longrightarrow> construction_info ?r1 \<in> ran (construction_properties example_quiver)"
    by blast
  with p have a: "construction_info ?r1 \<in> ran default_constructions" by simp
  from construction_resolution [OF m2, of "(4, [''a''])"]
  have t: "construction_type ?r2 = (case construction (rec_board ?r2) of None \<Rightarrow> ''pu'' | Some k \<Rightarrow> k)"
    and i: "construction_info ?r2 =
       (case construction_properties carbon_quiver (construction_type ?r2) of
          Some c \<Rightarrow> c
        | None \<Rightarrow> (case construction_properties carbon_quiver ''pu'' of Some c \<Rightarrow> c | None \<Rightarrow> []))"
    and e: "construction_info ?r2 = []
        \<longrightarrow> construction_bonuses (construction_type ?r2) (construction_info ?r2) 2 12 (4, [''a''])
            = (4, [''a''])"
    by blast+
  have t': "construction_type ?r2 = ''carbon''"
    unfolding t q k by simp
  have i': "construction_info ?r2 = []"
    unfolding i t' k by simp
  from e i' t' have "construction_bonuses ''carbon'' [] 2 12 (4, [''a'']) = (4, [''a''])"
    by simp
  with a t' i' show ?thesis by blast
qed

text \<open>
  Claim C2 as stated fails when the table has neither the board's key nor \<^verbatim>\<open>"pu"\<close>: the
  board of construction \<^verbatim>\<open>"carbon"\<close>, scored against a table that has \<^verbatim>\<open>"epoxy"\<close> only, is
  scored with the empty construction.
\<close>

theorem construction_resolution_counterexample:
  "hd (recommend_board fmt_plain carbon_quiver 2 12 5 None)
     \<in> set (recommend_board fmt_plain carbon_quiver 2 12 5 None)
   \<and> construction_properties carbon_quiver
        (construction_type (hd (recommend_board fmt_plain carbon_quiver 2 12 5 None))) = None
   \<and> construction_properties carbon_quiver ''pu'' = None
   \<and> construction_info (hd (recommend_board fmt_plain carbon_quiver 2 12 5 None)) = []"
  by (simp add: recommend_board_def sort_reverse_def scoring_defs example_defs Let_def)







end
